theory Spec2Isabelle
  imports Main "HOL-Library.Word"
begin

section \<open>Python values used by the service\<close>

text \<open>
  A Python \<open>str\<close> is a sequence of Unicode code points, and \<open>len\<close> counts code points,
  so text is a list of code points. The literals of \<^verbatim>\<open>main.py\<close> are ASCII and are written
  with \<open>lit\<close>.
\<close>

type_synonym pystr = "nat list"

definition lit :: "string \<Rightarrow> pystr" where
  "lit s = map of_char s"

text \<open>
  \<open>str.strip()\<close> with no argument removes the leading and the trailing characters for
  which \<open>str.isspace\<close> holds: the ASCII ones are U+0009..U+000D, U+001C..U+001F and U+0020,
  the others U+0085, U+00A0, U+1680, U+2000..U+200A, U+2028, U+2029, U+202F, U+205F, U+3000.
\<close>

definition py_isspace :: "nat \<Rightarrow> bool" where
  "py_isspace c =
     ((9 \<le> c \<and> c \<le> 13) \<or> (28 \<le> c \<and> c \<le> 32) \<or> c = 133 \<or> c = 160 \<or> c = 5760 \<or>
      (8192 \<le> c \<and> c \<le> 8202) \<or> c = 8232 \<or> c = 8233 \<or> c = 8239 \<or> c = 8287 \<or> c = 12288)"

definition py_strip :: "pystr \<Rightarrow> pystr" where
  "py_strip s = rev (dropWhile py_isspace (rev (dropWhile py_isspace s)))"

text \<open>
  A \<open>datetime\<close> is a wall-clock reading, here in microseconds counted from
  1970-01-01T00:00:00 on that clock, and an optional \<open>tzinfo\<close>: \<open>None\<close> for a naive value,
  otherwise the UTC offset in microseconds. The model type \<open>BookingBase\<close> declares
  \<open>start_time: datetime\<close> and \<open>end_time: datetime\<close>, which admits both kinds.
\<close>

record datetime =
  wall :: int
  utcoffset :: "int option"

definition hour :: "datetime \<Rightarrow> int" where
  "hour d = (wall d div 3600000000) mod 24"

definition datetime_now_utc :: "int \<Rightarrow> datetime" where
  \<comment> \<open>\<open>datetime.now(timezone.utc)\<close> when the clock reads \<open>now\<close>\<close>
  "datetime_now_utc now = \<lparr>wall = now, utcoffset = Some 0\<rparr>"

datatype py_error = TypeError | InvalidId | DuplicateKeyError | ResponseValidationError

text \<open>
  Ordering two datetimes compares the wall clocks of two naive values and the UTC instants
  of two aware ones; a naive value against an aware one raises \<open>TypeError\<close>.
\<close>

definition py_lt :: "datetime \<Rightarrow> datetime \<Rightarrow> py_error + bool" where
  "py_lt a b =
     (case (utcoffset a, utcoffset b) of
        (None, None) \<Rightarrow> Inr (wall a < wall b)
      | (Some x, Some y) \<Rightarrow> Inr (wall a - x < wall b - y)
      | _ \<Rightarrow> Inl TypeError)"

definition py_ge :: "datetime \<Rightarrow> datetime \<Rightarrow> py_error + bool" where
  "py_ge a b =
     (case (utcoffset a, utcoffset b) of
        (None, None) \<Rightarrow> Inr (wall a \<ge> wall b)
      | (Some x, Some y) \<Rightarrow> Inr (wall a - x \<ge> wall b - y)
      | _ \<Rightarrow> Inl TypeError)"

section \<open>Object identifiers\<close>

text \<open>
  An \<open>ObjectId\<close> that the driver generates is a 12-byte value, here a 96-bit word;
  \<open>binary\<close> is its bytes, most significant first, and its \<open>str\<close> is
  \<open>binascii.hexlify\<close> of the bytes: 24 lowercase hexadecimal digits.
\<close>

type_synonym objectid = "96 word"

fun bytes_be :: "nat \<Rightarrow> nat \<Rightarrow> nat list" where
  "bytes_be 0 n = []"
| "bytes_be (Suc k) n = bytes_be k (n div 256) @ [n mod 256]"

definition binary :: "objectid \<Rightarrow> nat list" where
  "binary oid = bytes_be 12 (unat oid)"

definition hex_digit :: "nat \<Rightarrow> nat" where
  \<comment> \<open>the code point of the lowercase digit of a value below 16\<close>
  "hex_digit v = (if v < 10 then 48 + v else 87 + v)"

definition hexlify :: "nat list \<Rightarrow> pystr" where
  "hexlify bs = concat (map (\<lambda>b. [hex_digit (b div 16), hex_digit (b mod 16)]) bs)"

definition str_oid :: "objectid \<Rightarrow> pystr" where
  "str_oid oid = hexlify (binary oid)"

text \<open>
  \<open>ObjectId(s)\<close> for a \<open>str\<close> \<open>s\<close> requires \<open>len(s) == 24\<close> and takes \<open>bytes.fromhex(s)\<close>
  as the value, raising \<open>InvalidId\<close> when the length differs or \<open>bytes.fromhex\<close> fails.
  \<open>bytes.fromhex\<close> reads pairs of hexadecimal digits of either case and skips ASCII
  whitespace (U+0009..U+000D and U+0020) before each pair, not inside one; any other
  character is an error. So a string of 24 characters that holds whitespace is read as
  fewer than 12 bytes. \<open>ObjectId.is_valid(s)\<close> is true exactly when \<open>ObjectId(s)\<close> does
  not raise.
\<close>

definition is_hex :: "nat \<Rightarrow> bool" where
  "is_hex c = ((48 \<le> c \<and> c \<le> 57) \<or> (97 \<le> c \<and> c \<le> 102) \<or> (65 \<le> c \<and> c \<le> 70))"

definition hex_val :: "nat \<Rightarrow> nat" where
  "hex_val c = (if c \<le> 57 then c - 48 else if c \<le> 70 then c - 55 else c - 87)"

definition c_isspace :: "nat \<Rightarrow> bool" where
  "c_isspace c = ((9 \<le> c \<and> c \<le> 13) \<or> c = 32)"

fun bytes_fromhex :: "pystr \<Rightarrow> nat list option" where
  "bytes_fromhex [] = Some []"
| "bytes_fromhex [c] = (if c_isspace c then Some [] else None)"
| "bytes_fromhex (c # d # cs) =
     (if c_isspace c then bytes_fromhex (d # cs)
      else if is_hex c \<and> is_hex d
      then map_option (\<lambda>bs. (16 * hex_val c + hex_val d) # bs) (bytes_fromhex cs)
      else None)"

definition ObjectId :: "pystr \<Rightarrow> py_error + nat list" where
  \<comment> \<open>the bytes of the identifier constructed, or the exception raised\<close>
  "ObjectId s =
     (if length s = 24
      then (case bytes_fromhex s of Some bs \<Rightarrow> Inr bs | None \<Rightarrow> Inl InvalidId)
      else Inl InvalidId)"

definition ObjectId_is_valid :: "pystr \<Rightarrow> bool" where
  "ObjectId_is_valid s = (case ObjectId s of Inr oid \<Rightarrow> True | Inl e \<Rightarrow> False)"

section \<open>Models and the database\<close>

text \<open>
  \<open>FeedbackInDB\<close> inherits the fields of \<open>FeedbackCreate\<close> and adds \<open>id\<close> (the document's
  \<open>_id\<close>, written \<open>feedback_id\<close>) and \<open>time\<close>. The fields \<open>name\<close> and \<open>email\<close> of \<open>BookingBase\<close>
  are written \<open>booking_name\<close> and \<open>booking_email\<close>, and the \<open>id\<close> of \<open>BookingInDB\<close> is
  \<open>booking_id\<close>.
\<close>

record FeedbackCreate =
  name :: pystr
  email :: pystr
  feedback :: pystr

record FeedbackInDB = FeedbackCreate +
  feedback_id :: objectid
  time :: datetime

record BookingBase =
  booking_name :: pystr
  booking_email :: pystr
  start_time :: datetime
  end_time :: datetime
  topic :: pystr

record BookingInDB = BookingBase +
  booking_id :: objectid

text \<open>
  A date is stored by the database as a BSON date, a whole number of milliseconds of UTC
  since 1970-01-01: the driver takes a naive \<open>datetime\<close> as UTC, subtracts the offset of
  an aware one, and drops the microseconds below a millisecond. Reading a document gives
  the date back as a naive \<open>datetime\<close> (the client of \<^verbatim>\<open>database.py\<close> is created
  without \<open>tz_aware\<close>).
\<close>

definition utc_micros :: "datetime \<Rightarrow> int" where
  \<comment> \<open>the UTC instant in microseconds, a naive value taken as UTC\<close>
  "utc_micros d = wall d - (case utcoffset d of None \<Rightarrow> 0 | Some off \<Rightarrow> off)"

definition bson_date :: "datetime \<Rightarrow> int" where
  \<comment> \<open>the BSON date the driver encodes: whole milliseconds\<close>
  "bson_date d = utc_micros d div 1000"

definition datetime_of_bson :: "int \<Rightarrow> datetime" where
  \<comment> \<open>the \<open>datetime\<close> the driver decodes from a BSON date\<close>
  "datetime_of_bson ms = \<lparr>wall = ms * 1000, utcoffset = None\<rparr>"

definition stored_datetime :: "datetime \<Rightarrow> datetime" where
  "stored_datetime d = datetime_of_bson (bson_date d)"

definition feedback_document :: "FeedbackInDB \<Rightarrow> FeedbackInDB" where
  "feedback_document d = d\<lparr>time := stored_datetime (time d)\<rparr>"

definition booking_document :: "BookingInDB \<Rightarrow> BookingInDB" where
  "booking_document d =
     d\<lparr>start_time := stored_datetime (start_time d), end_time := stored_datetime (end_time d)\<rparr>"

text \<open>
  The database \<open>db\<close> of \<^verbatim>\<open>database.py\<close> holds the collections \<open>feedback\<close> and \<open>bookings\<close>.
  A collection is the list of its documents in insertion order, each as a read returns
  it. \<open>insert_one\<close> refuses an \<open>_id\<close> already present and otherwise appends the document as
  the driver encodes it (\<open>encode\<close>: \<open>feedback_document\<close> or \<open>booking_document\<close>);
  \<open>find_one\<close> returns the first document that matches the query.
\<close>

record database =
  feedback_coll :: "FeedbackInDB list"
  bookings_coll :: "BookingInDB list"

definition insert_one ::
  "('d \<Rightarrow> objectid) \<Rightarrow> ('d \<Rightarrow> 'd) \<Rightarrow> 'd list \<Rightarrow> 'd \<Rightarrow> py_error + 'd list" where
  "insert_one key encode coll doc =
     (if key doc \<in> set (map key coll) then Inl DuplicateKeyError
      else Inr (coll @ [encode doc]))"

definition find_one :: "('d \<Rightarrow> bool) \<Rightarrow> 'd list \<Rightarrow> 'd option" where
  "find_one query coll = List.find query coll"

section \<open>Responses\<close>

text \<open>
  \<open>Returned r\<close> is status 200 with the record \<open>r\<close> serialised through the route's
  \<open>response_model\<close>; \<open>HTTPException c d\<close> is the generic body \<open>{"detail": d}\<close> with status
  \<open>c\<close>; \<open>JSONResponse c r\<close> is the structured body \<open>{"status": "failed", "reason": r}\<close>
  with status \<open>c\<close>; \<open>RequestValidationError\<close> is the framework's 422 for a request that
  does not fit the declared parameters; \<open>Unhandled e\<close> is an exception no handler
  catches, status 500.
\<close>

datatype 'a response =
    Returned 'a
  | HTTPException nat pystr
  | JSONResponse nat pystr
  | RequestValidationError
  | Unhandled py_error

fun status_code :: "'a response \<Rightarrow> nat" where
  "status_code (Returned r) = 200"
| "status_code (HTTPException c d) = c"
| "status_code (JSONResponse c r) = c"
| "status_code RequestValidationError = 422"
| "status_code (Unhandled e) = 500"

section \<open>Routes\<close>

text \<open>
  \<open>API_KEY = os.getenv("API_KEY")\<close> is \<open>None\<close> when the variable is not set. The
  handlers read the clock (\<open>now\<close>) and the driver generates the \<open>_id\<close> of an inserted
  document (\<open>new_id\<close>); both are inputs of the model.
\<close>

definition verify_api_key :: "pystr option \<Rightarrow> pystr \<Rightarrow> 'a response option" where
  \<comment> \<open>\<open>Some r\<close>: the exception raised, answered as \<open>r\<close>; \<open>None\<close>: returns normally\<close>
  "verify_api_key API_KEY x_api_key =
     (if Some x_api_key \<noteq> API_KEY
      then Some (HTTPException 401 (lit ''Invalid or missing API Key''))
      else None)"

definition create_feedback ::
  "int \<Rightarrow> objectid \<Rightarrow> database \<Rightarrow> FeedbackCreate \<Rightarrow> FeedbackInDB response \<times> database" where
  "create_feedback now new_id db feedback_in =
     (if length (py_strip (feedback feedback_in)) < 10
      then (HTTPException 400 (lit ''Feedback too short.''), db)
      else
        let feedback_data =
              \<lparr>name = name feedback_in, email = email feedback_in,
               feedback = feedback feedback_in, feedback_id = new_id, time = datetime_now_utc now\<rparr>
        in (case insert_one feedback_id feedback_document (feedback_coll db) feedback_data of
              Inl e \<Rightarrow> (Unhandled e, db)
            | Inr coll \<Rightarrow>
                (case find_one (\<lambda>d. feedback_id d = new_id) coll of
                   None \<Rightarrow> (Unhandled ResponseValidationError, db\<lparr>feedback_coll := coll\<rparr>)
                 | Some created_feedback \<Rightarrow>
                     (Returned created_feedback, db\<lparr>feedback_coll := coll\<rparr>))))"

definition get_feedback :: "database \<Rightarrow> pystr \<Rightarrow> FeedbackInDB response" where
  "get_feedback db ident =
     (if \<not> ObjectId_is_valid ident then HTTPException 400 (lit ''Invalid ID format'')
      else
        (case ObjectId ident of
           Inl e \<Rightarrow> Unhandled e
         | Inr oid \<Rightarrow>
             (case find_one (\<lambda>d. binary (feedback_id d) = oid) (feedback_coll db) of
                None \<Rightarrow> HTTPException 404 (lit ''Not found'')
              | Some doc \<Rightarrow> Returned doc)))"

text \<open>
  The overlap query is
  \<open>{"start_time": {"$lt": booking.end_time}, "end_time": {"$gt": booking.start_time}}\<close>:
  the database compares the stored dates with the dates the driver encodes for the two
  values of the request. The identifier a \<open>GET\<close> route looks for is the bytes of
  \<open>ObjectId(id)\<close>; a document matches when its \<open>_id\<close> has these bytes.
\<close>

definition overlap_query :: "BookingBase \<Rightarrow> BookingInDB \<Rightarrow> bool" where
  "overlap_query booking d =
     (bson_date (start_time d) < bson_date (end_time booking) \<and>
      bson_date (end_time d) > bson_date (start_time booking))"

definition create_booking ::
  "int \<Rightarrow> objectid \<Rightarrow> database \<Rightarrow> BookingBase \<Rightarrow> BookingInDB response \<times> database" where
  "create_booking now new_id db booking =
     (case py_ge (start_time booking) (end_time booking) of
        Inl e \<Rightarrow> (Unhandled e, db)
      | Inr ge \<Rightarrow>
     if ge then (JSONResponse 400 (lit ''Start time must be before end time.''), db)
     else
     (case py_lt (start_time booking) (datetime_now_utc now) of
        Inl e \<Rightarrow> (Unhandled e, db)
      | Inr lt \<Rightarrow>
     if lt then (JSONResponse 400 (lit ''Cannot create a booking in the past.''), db)
     else if hour (start_time booking) < 9 \<or> hour (end_time booking) > 18
     then (JSONResponse 400 (lit ''Cannot create a booking outside office hours.''), db)
     else
     (case find_one (overlap_query booking) (bookings_coll db) of
        Some existing_booking \<Rightarrow>
          (JSONResponse 409
             (lit ''Time slot unavailable. Overlaps with booking ID: '' @
              str_oid (booking_id existing_booking)), db)
      | None \<Rightarrow>
          let new_booking =
                \<lparr>booking_name = booking_name booking, booking_email = booking_email booking,
                 start_time = start_time booking, end_time = end_time booking,
                 topic = topic booking, booking_id = new_id\<rparr>
          in (case insert_one booking_id booking_document (bookings_coll db) new_booking of
                Inl e \<Rightarrow> (Unhandled e, db)
              | Inr coll \<Rightarrow>
                  (case find_one (\<lambda>d. booking_id d = new_id) coll of
                     None \<Rightarrow> (Unhandled ResponseValidationError, db\<lparr>bookings_coll := coll\<rparr>)
                   | Some created_booking \<Rightarrow>
                       (Returned created_booking, db\<lparr>bookings_coll := coll\<rparr>))))))"

definition get_booking :: "database \<Rightarrow> pystr \<Rightarrow> BookingInDB response" where
  "get_booking db ident =
     (if \<not> ObjectId_is_valid ident then JSONResponse 400 (lit ''Invalid ID format'')
      else
        (case ObjectId ident of
           Inl e \<Rightarrow> Unhandled e
         | Inr oid \<Rightarrow>
             (case find_one (\<lambda>d. binary (booking_id d) = oid) (bookings_coll db) of
                None \<Rightarrow> HTTPException 404 (lit ''Not found'')
              | Some doc \<Rightarrow> Returned doc)))"

section \<open>Requests as the framework dispatches them\<close>

text \<open>
  The body of \<open>POST /feedback\<close> is a JSON object, a dictionary from keys to values.
  \<open>FeedbackCreate\<close> declares the three required \<open>str\<close> fields \<open>name\<close>, \<open>email\<close> and
  \<open>feedback\<close>; validation reads these keys and no other, and fails when one is missing
  or is not a string.
\<close>

datatype json = JNull | JBool bool | JNumber int | JString pystr | JArray | JObject

definition FeedbackCreate_validate :: "(pystr \<rightharpoonup> json) \<Rightarrow> FeedbackCreate option" where
  "FeedbackCreate_validate body =
     (case body (lit ''name'') of
        Some (JString n) \<Rightarrow>
          (case body (lit ''email'') of
             Some (JString e) \<Rightarrow>
               (case body (lit ''feedback'') of
                  Some (JString f) \<Rightarrow> Some \<lparr>name = n, email = e, feedback = f\<rparr>
                | _ \<Rightarrow> None)
           | _ \<Rightarrow> None)
      | _ \<Rightarrow> None)"

text \<open>
  A protected route is declared with \<open>dependencies=[Depends(verify_api_key)]\<close>, and
  \<open>verify_api_key\<close> declares its parameter as \<open>x_api_key: str = Header(...)\<close>, a required
  header. The framework resolves the dependency before the handler's own parameters:
  a request without the header does not fit the declared parameter, so it is answered by
  the framework and \<open>verify_api_key\<close> is not called; with the header, \<open>verify_api_key\<close>
  runs; only then is the body validated and the handler called. \<open>body = None\<close> stands for
  a JSON body that fails the validation of the handler's model. A body that is not JSON
  is refused by the framework while the request is read and is not a request of this
  model.
\<close>

definition protected ::
  "pystr option \<Rightarrow> pystr option \<Rightarrow> 'b option \<Rightarrow> database \<Rightarrow>
   ('b \<Rightarrow> 'a response \<times> database) \<Rightarrow> 'a response \<times> database" where
  "protected API_KEY x_api_key body db handler =
     (case x_api_key of
        None \<Rightarrow> (RequestValidationError, db)
      | Some k \<Rightarrow>
          (case verify_api_key API_KEY k of
             Some r \<Rightarrow> (r, db)
           | None \<Rightarrow>
               (case body of
                  None \<Rightarrow> (RequestValidationError, db)
                | Some b \<Rightarrow> handler b)))"

definition route_post_feedback ::
  "pystr option \<Rightarrow> pystr option \<Rightarrow> (pystr \<rightharpoonup> json) \<Rightarrow> int \<Rightarrow> objectid \<Rightarrow> database \<Rightarrow>
   FeedbackInDB response \<times> database" where
  "route_post_feedback API_KEY x_api_key body now new_id db =
     protected API_KEY x_api_key (FeedbackCreate_validate body) db (create_feedback now new_id db)"

definition route_get_feedback ::
  "pystr option \<Rightarrow> pystr option \<Rightarrow> pystr \<Rightarrow> database \<Rightarrow> FeedbackInDB response \<times> database" where
  "route_get_feedback API_KEY x_api_key ident db =
     protected API_KEY x_api_key (Some ident) db (\<lambda>i. (get_feedback db i, db))"

definition route_post_booking ::
  "pystr option \<Rightarrow> pystr option \<Rightarrow> BookingBase option \<Rightarrow> int \<Rightarrow> objectid \<Rightarrow> database \<Rightarrow>
   BookingInDB response \<times> database" where
  "route_post_booking API_KEY x_api_key body now new_id db =
     protected API_KEY x_api_key body db (create_booking now new_id db)"

definition route_get_booking ::
  "pystr option \<Rightarrow> pystr option \<Rightarrow> pystr \<Rightarrow> database \<Rightarrow> BookingInDB response \<times> database" where
  "route_get_booking API_KEY x_api_key ident db =
     protected API_KEY x_api_key (Some ident) db (\<lambda>i. (get_booking db i, db))"

section \<open>The spec's measure and example requests\<close>

text \<open>
  The spec counts the non-whitespace characters of a feedback text; the code never
  computes this number. It is defined here to state what the spec says.
\<close>

definition spec_non_whitespace_count :: "pystr \<Rightarrow> nat" where
  "spec_non_whitespace_count s = length (filter (\<lambda>c. \<not> py_isspace c) s)"


definition empty_db :: database where
  "empty_db = \<lparr>feedback_coll = [], bookings_coll = []\<rparr>"

definition example_feedback :: "string \<Rightarrow> FeedbackCreate" where
  "example_feedback s = \<lparr>name = lit ''Alice'', email = lit ''a@x.com'', feedback = lit s\<rparr>"

definition utc_at :: "int \<Rightarrow> int \<Rightarrow> int \<Rightarrow> datetime" where
  \<comment> \<open>the aware UTC datetime at \<open>h:m\<close> on day \<open>day\<close> after 1970-01-01\<close>
  "utc_at day h m =
     \<lparr>wall = day * 86400000000 + h * 3600000000 + m * 60000000, utcoffset = Some 0\<rparr>"

definition naive_at :: "int \<Rightarrow> int \<Rightarrow> int \<Rightarrow> datetime" where
  \<comment> \<open>the naive datetime at \<open>h:m\<close> on day \<open>day\<close> after 1970-01-01\<close>
  "naive_at day h m =
     \<lparr>wall = day * 86400000000 + h * 3600000000 + m * 60000000, utcoffset = None\<rparr>"

definition example_booking :: "datetime \<Rightarrow> datetime \<Rightarrow> BookingBase" where
  "example_booking s e =
     \<lparr>booking_name = lit ''Bob'', booking_email = lit ''b@x.com'', start_time = s,
      end_time = e, topic = lit ''Review''\<rparr>"

definition stored_booking :: "objectid \<Rightarrow> datetime \<Rightarrow> datetime \<Rightarrow> BookingInDB" where
  "stored_booking i s e =
     \<lparr>booking_name = lit ''Eve'', booking_email = lit ''e@x.com'', start_time = s,
      end_time = e, topic = lit ''Planning'', booking_id = i\<rparr>"

text \<open>
  The example of the spec: one stored booking, 10:00 to 11:00 UTC on day 20000
  (2024-10-04), read from the database with naive datetimes, and a clock that reads
  midnight of the day before.
\<close>

definition example_db :: database where
  "example_db =
     \<lparr>feedback_coll = [],
      bookings_coll = [stored_booking 1 (naive_at 20000 10 0) (naive_at 20000 11 0)]\<rparr>"

definition example_now :: int where
  "example_now = wall (utc_at 19999 0 0)"

definition example_body :: "pystr \<rightharpoonup> json" where
  "example_body =
     [lit ''name'' \<mapsto> JString (lit ''Alice''), lit ''email'' \<mapsto> JString (lit ''a@x.com''),
      lit ''feedback'' \<mapsto> JString (lit ''This is more than ten characters'')]"

section \<open>Basic facts\<close>

lemma lit_eq_iff: "lit a = lit b \<longleftrightarrow> a = b"
  unfolding lit_def by (simp add: inj_map_eq_map inj_of_char)

lemma hex_digit_is_hex: "v < 16 \<Longrightarrow> is_hex (hex_digit v)"
  by (auto simp: is_hex_def hex_digit_def)

lemma hex_val_digit: "v < 16 \<Longrightarrow> hex_val (hex_digit v) = v"
  by (auto simp: hex_val_def hex_digit_def)

lemma hex_digit_not_space: "v < 16 \<Longrightarrow> \<not> c_isspace (hex_digit v)"
  by (auto simp: c_isspace_def hex_digit_def)

lemma length_bytes_be: "length (bytes_be k n) = k"
  by (induction k arbitrary: n) auto

lemma bytes_be_less: "b \<in> set (bytes_be k n) \<Longrightarrow> b < 256"
  by (induction k arbitrary: n) auto

lemma length_hexlify: "length (hexlify bs) = 2 * length bs"
  by (induction bs) (auto simp: hexlify_def)

lemma hexlify_Cons:
  "hexlify (b # bs) = hex_digit (b div 16) # hex_digit (b mod 16) # hexlify bs"
  by (simp add: hexlify_def)

lemma bytes_fromhex_hexlify:
  assumes "\<forall>b\<in>set bs. b < 256"
  shows "bytes_fromhex (hexlify bs) = Some bs"
  using assms
proof (induction bs)
  case Nil
  then show ?case by (simp add: hexlify_def)
next
  case (Cons b bs)
  then have b: "b < 256" and rest: "bytes_fromhex (hexlify bs) = Some bs"
    by auto
  from b have hi: "b div 16 < 16" and lo: "b mod 16 < 16"
    by auto
  have val: "16 * (b div 16) + b mod 16 = b"
    by simp
  show ?case
    by (simp add: hexlify_Cons rest hex_digit_not_space [OF hi] hex_digit_is_hex [OF hi]
        hex_digit_is_hex [OF lo] hex_val_digit [OF hi] hex_val_digit [OF lo] val)
qed

lemma parse_bytes_be:
  "foldl (\<lambda>a c. 256 * a + c) a (bytes_be k n) = a * 256 ^ k + n mod 256 ^ k"
proof (induction k arbitrary: n)
  case 0
  then show ?case by simp
next
  case (Suc k)
  have split: "256 * (n div 256 mod 256 ^ k) + n mod 256 = n mod (256 * 256 ^ k)"
    by (metis mod_mult2_eq mult.commute add.commute)
  have "foldl (\<lambda>a c. 256 * a + c) a (bytes_be (Suc k) n) =
        256 * (a * 256 ^ k + n div 256 mod 256 ^ k) + n mod 256"
    by (simp add: Suc)
  also have "\<dots> = a * 256 ^ Suc k + (256 * (n div 256 mod 256 ^ k) + n mod 256)"
    by (simp add: algebra_simps)
  finally show ?case
    by (simp add: split)
qed

lemma binary_eq_iff: "binary a = binary b \<longleftrightarrow> a = b"
proof
  assume eq: "binary a = binary b"
  have less: "unat x < 256 ^ 12" for x :: objectid
    using unsigned_less [of x] by simp
  have "unat x = foldl (\<lambda>a c. 256 * a + c) 0 (binary x)" for x :: objectid
    using less [of x] by (simp add: binary_def parse_bytes_be)
  then have "unat a = unat b"
    using eq by simp
  then show "a = b"
    by (rule unsigned_word_eqI)
qed simp

lemma length_str_oid: "length (str_oid oid) = 24"
  by (simp add: str_oid_def length_hexlify binary_def length_bytes_be)

lemma ObjectId_str_oid: "ObjectId (str_oid oid) = Inr (binary oid)"
proof -
  have "bytes_fromhex (hexlify (binary oid)) = Some (binary oid)"
    by (rule bytes_fromhex_hexlify) (auto simp: binary_def bytes_be_less)
  then show ?thesis
    using length_str_oid [of oid] by (simp add: ObjectId_def str_oid_def)
qed

lemma ObjectId_is_valid_str_oid: "ObjectId_is_valid (str_oid oid)"
  by (simp add: ObjectId_is_valid_def ObjectId_str_oid)

lemma stored_datetime_utc:
  "stored_datetime (datetime_now_utc now) = \<lparr>wall = now div 1000 * 1000, utcoffset = None\<rparr>"
  by (simp add: stored_datetime_def datetime_of_bson_def bson_date_def utc_micros_def
      datetime_now_utc_def)

lemma bson_date_stored: "bson_date (stored_datetime d) = bson_date d"
  by (simp add: stored_datetime_def datetime_of_bson_def bson_date_def utc_micros_def)

lemma find_one_append_fresh:
  "\<forall>x\<in>set coll. \<not> P x \<Longrightarrow> P doc \<Longrightarrow> find_one P (coll @ [doc]) = Some doc"
  unfolding find_one_def by (induction coll) auto

lemma insert_one_Inr:
  "insert_one key encode coll doc = Inr coll' \<longleftrightarrow>
     key doc \<notin> key ` set coll \<and> coll' = coll @ [encode doc]"
  by (auto simp: insert_one_def)

lemma insert_one_Inl:
  "insert_one key encode coll doc = Inl e \<longleftrightarrow> key doc \<in> key ` set coll \<and> e = DuplicateKeyError"
  by (auto simp: insert_one_def)

lemma find_one_inserted:
  assumes "key doc \<notin> key ` set coll"
  shows "find_one (\<lambda>d. key d = key doc) (coll @ [doc]) = Some doc"
  using assms by (intro find_one_append_fresh) (auto intro: rev_image_eqI)

lemma create_feedback_short:
  assumes "length (py_strip (feedback feedback_in)) < 10"
  shows "create_feedback now new_id db feedback_in =
           (HTTPException 400 (lit ''Feedback too short.''), db)"
  using assms by (simp add: create_feedback_def)

lemma create_feedback_duplicate:
  assumes "10 \<le> length (py_strip (feedback feedback_in))"
    and "new_id \<in> feedback_id ` set (feedback_coll db)"
  shows "create_feedback now new_id db feedback_in = (Unhandled DuplicateKeyError, db)"
  using assms by (simp add: create_feedback_def insert_one_def)

lemma create_feedback_inserted:
  assumes "10 \<le> length (py_strip (feedback feedback_in))"
    and "new_id \<notin> feedback_id ` set (feedback_coll db)"
  shows "create_feedback now new_id db feedback_in =
           (Returned \<lparr>name = name feedback_in, email = email feedback_in,
                      feedback = feedback feedback_in, feedback_id = new_id,
                      time = stored_datetime (datetime_now_utc now)\<rparr>,
            db\<lparr>feedback_coll := feedback_coll db @
                 [\<lparr>name = name feedback_in, email = email feedback_in,
                   feedback = feedback feedback_in, feedback_id = new_id,
                   time = stored_datetime (datetime_now_utc now)\<rparr>]\<rparr>)"
proof -
  let ?doc = "\<lparr>name = name feedback_in, email = email feedback_in,
               feedback = feedback feedback_in, feedback_id = new_id,
               time = stored_datetime (datetime_now_utc now)\<rparr>"
  have fresh: "feedback_id ?doc \<notin> feedback_id ` set (feedback_coll db)"
    using assms(2) by simp
  have "find_one (\<lambda>d. feedback_id d = feedback_id ?doc) (feedback_coll db @ [?doc]) = Some ?doc"
    using fresh by (rule find_one_inserted)
  then have "find_one (\<lambda>d. feedback_id d = new_id) (feedback_coll db @ [?doc]) = Some ?doc"
    by simp
  then show ?thesis
    using assms by (simp add: create_feedback_def insert_one_def feedback_document_def Let_def)
qed


lemma create_booking_order:
  assumes "py_ge (start_time booking) (end_time booking) = Inr True"
  shows "create_booking now new_id db booking =
           (JSONResponse 400 (lit ''Start time must be before end time.''), db)"
  using assms by (simp add: create_booking_def)

lemma create_booking_past:
  assumes "py_ge (start_time booking) (end_time booking) = Inr False"
    and "py_lt (start_time booking) (datetime_now_utc now) = Inr True"
  shows "create_booking now new_id db booking =
           (JSONResponse 400 (lit ''Cannot create a booking in the past.''), db)"
  using assms by (simp add: create_booking_def)

lemma create_booking_office:
  assumes "py_ge (start_time booking) (end_time booking) = Inr False"
    and "py_lt (start_time booking) (datetime_now_utc now) = Inr False"
    and "hour (start_time booking) < 9 \<or> hour (end_time booking) > 18"
  shows "create_booking now new_id db booking =
           (JSONResponse 400 (lit ''Cannot create a booking outside office hours.''), db)"
  using assms by (auto simp add: create_booking_def)

lemma create_booking_overlap:
  assumes "py_ge (start_time booking) (end_time booking) = Inr False"
    and "py_lt (start_time booking) (datetime_now_utc now) = Inr False"
    and "\<not> (hour (start_time booking) < 9 \<or> hour (end_time booking) > 18)"
    and "find_one (overlap_query booking) (bookings_coll db) = Some existing_booking"
  shows "create_booking now new_id db booking =
           (JSONResponse 409
              (lit ''Time slot unavailable. Overlaps with booking ID: '' @
               str_oid (booking_id existing_booking)), db)"
  using assms by (simp add: create_booking_def)

lemma create_booking_duplicate:
  assumes "py_ge (start_time booking) (end_time booking) = Inr False"
    and "py_lt (start_time booking) (datetime_now_utc now) = Inr False"
    and "\<not> (hour (start_time booking) < 9 \<or> hour (end_time booking) > 18)"
    and "find_one (overlap_query booking) (bookings_coll db) = None"
    and "new_id \<in> booking_id ` set (bookings_coll db)"
  shows "create_booking now new_id db booking = (Unhandled DuplicateKeyError, db)"
  using assms by (simp add: create_booking_def insert_one_def)

lemma create_booking_inserted:
  assumes "py_ge (start_time booking) (end_time booking) = Inr False"
    and "py_lt (start_time booking) (datetime_now_utc now) = Inr False"
    and "\<not> (hour (start_time booking) < 9 \<or> hour (end_time booking) > 18)"
    and "find_one (overlap_query booking) (bookings_coll db) = None"
    and "new_id \<notin> booking_id ` set (bookings_coll db)"
  shows "create_booking now new_id db booking =
           (Returned \<lparr>booking_name = booking_name booking, booking_email = booking_email booking,
                      start_time = stored_datetime (start_time booking),
                      end_time = stored_datetime (end_time booking),
                      topic = topic booking, booking_id = new_id\<rparr>,
            db\<lparr>bookings_coll := bookings_coll db @
                 [\<lparr>booking_name = booking_name booking, booking_email = booking_email booking,
                   start_time = stored_datetime (start_time booking),
                   end_time = stored_datetime (end_time booking),
                   topic = topic booking, booking_id = new_id\<rparr>]\<rparr>)"
proof -
  let ?doc = "\<lparr>booking_name = booking_name booking, booking_email = booking_email booking,
               start_time = stored_datetime (start_time booking),
               end_time = stored_datetime (end_time booking),
               topic = topic booking, booking_id = new_id\<rparr>"
  have fresh: "booking_id ?doc \<notin> booking_id ` set (bookings_coll db)"
    using assms(5) by simp
  have "find_one (\<lambda>d. booking_id d = booking_id ?doc) (bookings_coll db @ [?doc]) = Some ?doc"
    using fresh by (rule find_one_inserted)
  then have "find_one (\<lambda>d. booking_id d = new_id) (bookings_coll db @ [?doc]) = Some ?doc"
    by simp
  then show ?thesis
    using assms by (simp add: create_booking_def insert_one_def booking_document_def Let_def)
qed


lemma py_ge_aware:
  assumes "utcoffset a = Some x" and "utcoffset b = Some y"
  shows "py_ge a b = Inr (utc_micros b \<le> utc_micros a)"
  using assms by (simp add: py_ge_def utc_micros_def)

lemma py_lt_aware:
  assumes "utcoffset a = Some x" and "utcoffset b = Some y"
  shows "py_lt a b = Inr (utc_micros a < utc_micros b)"
  using assms by (simp add: py_lt_def utc_micros_def)


lemma find_one_None_iff: "find_one P coll = None \<longleftrightarrow> (\<forall>x\<in>set coll. \<not> P x)"
  unfolding find_one_def by (auto simp: find_None_iff)


lemma create_booking_failed_db:
  assumes "status_code (fst (create_booking now new_id db booking)) \<noteq> 200"
    and "status_code (fst (create_booking now new_id db booking)) \<noteq> 500"
  shows "snd (create_booking now new_id db booking) = db"
  using assms
  by (auto simp: create_booking_def Let_def split: sum.splits option.splits if_splits)

lemma create_booking_Returned:
  assumes "create_booking now new_id db booking = (Returned r, db')"
  shows "r = \<lparr>booking_name = booking_name booking, booking_email = booking_email booking,
               start_time = stored_datetime (start_time booking),
               end_time = stored_datetime (end_time booking),
               topic = topic booking, booking_id = new_id\<rparr> \<and>
         db' = db\<lparr>bookings_coll := bookings_coll db @ [r]\<rparr> \<and>
         new_id \<notin> booking_id ` set (bookings_coll db)"
proof -
  have c1: "py_ge (start_time booking) (end_time booking) = Inr False"
    using assms by (auto simp: create_booking_def split: sum.splits if_splits)
  have c2: "py_lt (start_time booking) (datetime_now_utc now) = Inr False"
    using assms c1 by (auto simp: create_booking_def split: sum.splits if_splits)
  have c3: "\<not> (hour (start_time booking) < 9 \<or> hour (end_time booking) > 18)"
    using assms c1 c2 by (auto simp: create_booking_def split: if_splits)
  have c4: "find_one (overlap_query booking) (bookings_coll db) = None"
    using assms c1 c2 c3 by (auto simp: create_booking_def split: option.splits)
  have c5: "new_id \<notin> booking_id ` set (bookings_coll db)"
    using assms create_booking_duplicate [OF c1 c2 c3 c4] by auto
  show ?thesis
    using assms create_booking_inserted [OF c1 c2 c3 c4 c5] c5 by auto
qed

lemma create_feedback_Returned:
  assumes "create_feedback now new_id db feedback_in = (Returned r, db')"
  shows "r = \<lparr>name = name feedback_in, email = email feedback_in,
               feedback = feedback feedback_in, feedback_id = new_id,
               time = stored_datetime (datetime_now_utc now)\<rparr> \<and>
         db' = db\<lparr>feedback_coll := feedback_coll db @ [r]\<rparr> \<and>
         new_id \<notin> feedback_id ` set (feedback_coll db)"
proof -
  have c1: "10 \<le> length (py_strip (feedback feedback_in))"
    using assms by (auto simp: create_feedback_def split: if_splits)
  have c2: "new_id \<notin> feedback_id ` set (feedback_coll db)"
    using assms create_feedback_duplicate [OF c1] by auto
  show ?thesis
    using assms create_feedback_inserted [OF c1 c2] c2 by auto
qed

section \<open>Creating feedback: the length check\<close>

lemma filter_dropWhile_not:
  "filter (\<lambda>c. \<not> P c) (dropWhile P s) = filter (\<lambda>c. \<not> P c) s"
  by (induction s) auto

lemma spec_non_whitespace_count_strip:
  "spec_non_whitespace_count (py_strip s) = spec_non_whitespace_count s"
proof -
  have "filter (\<lambda>c. \<not> py_isspace c) (py_strip s) =
        rev (filter (\<lambda>c. \<not> py_isspace c) (dropWhile py_isspace (rev (dropWhile py_isspace s))))"
    by (simp add: py_strip_def rev_filter)
  also have "\<dots> = rev (filter (\<lambda>c. \<not> py_isspace c) (rev (dropWhile py_isspace s)))"
    by (simp only: filter_dropWhile_not)
  also have "\<dots> = filter (\<lambda>c. \<not> py_isspace c) (dropWhile py_isspace s)"
    by (simp add: rev_filter)
  also have "\<dots> = filter (\<lambda>c. \<not> py_isspace c) s"
    by (rule filter_dropWhile_not)
  finally show ?thesis
    by (simp add: spec_non_whitespace_count_def)
qed

lemma spec_non_whitespace_count_le: "spec_non_whitespace_count s \<le> length s"
  by (simp add: spec_non_whitespace_count_def)

lemma create_feedback_passes:
  assumes long: "10 \<le> length (py_strip (feedback feedback_in))"
  shows "fst (create_feedback now new_id db feedback_in) \<noteq>
           HTTPException 400 (lit ''Feedback too short.'')"
proof (cases "new_id \<in> feedback_id ` set (feedback_coll db)")
  case True
  then show ?thesis by (simp add: create_feedback_duplicate [OF long])
next
  case False
  then show ?thesis by (simp add: create_feedback_inserted [OF long])
qed

lemma strip_spaced: "py_strip (lit ''a        b'') = lit ''a        b''"
  by (simp add: py_strip_def lit_def py_isspace_def)

lemma strip_short: "py_strip (lit ''  too short  '') = lit ''too short''"
  by (simp add: py_strip_def lit_def py_isspace_def)

lemma cnt_spaced: "spec_non_whitespace_count (py_strip (lit ''a        b'')) = 2"
  by (simp add: spec_non_whitespace_count_def py_strip_def lit_def py_isspace_def)

text \<open>
  Claim C1, as the code has it. \<open>create_feedback\<close> measures the length of the trimmed
  text, whitespace inside the text included. A text whose trimmed length is below 10 is
  answered with status 400 and detail "Feedback too short.", and the database is returned
  unchanged. A text whose trimmed length is at least 10 is never answered so; this covers
  every text with at least 10 non-whitespace characters.
\<close>

theorem create_feedback_length_check:
  "(length (py_strip (feedback feedback_in)) < 10 \<longrightarrow>
      create_feedback now new_id db feedback_in =
        (HTTPException 400 (lit ''Feedback too short.''), db)) \<and>
   (10 \<le> length (py_strip (feedback feedback_in)) \<longrightarrow>
      fst (create_feedback now new_id db feedback_in) \<noteq>
        HTTPException 400 (lit ''Feedback too short.'')) \<and>
   (10 \<le> spec_non_whitespace_count (py_strip (feedback feedback_in)) \<longrightarrow>
      fst (create_feedback now new_id db feedback_in) \<noteq>
        HTTPException 400 (lit ''Feedback too short.''))"
proof (intro conjI impI)
  assume "length (py_strip (feedback feedback_in)) < 10"
  then show "create_feedback now new_id db feedback_in =
      (HTTPException 400 (lit ''Feedback too short.''), db)"
    by (rule create_feedback_short)
next
  assume "10 \<le> length (py_strip (feedback feedback_in))"
  then show "fst (create_feedback now new_id db feedback_in) \<noteq>
      HTTPException 400 (lit ''Feedback too short.'')"
    by (rule create_feedback_passes)
next
  assume "10 \<le> spec_non_whitespace_count (py_strip (feedback feedback_in))"
  then have "10 \<le> length (py_strip (feedback feedback_in))"
    using spec_non_whitespace_count_le [of "py_strip (feedback feedback_in)"] by linarith
  then show "fst (create_feedback now new_id db feedback_in) \<noteq>
      HTTPException 400 (lit ''Feedback too short.'')"
    by (rule create_feedback_passes)
qed

theorem create_feedback_length_check_witness:
  "length (py_strip (feedback (example_feedback ''  too short  ''))) < 10 \<and>
   create_feedback 0 1 empty_db (example_feedback ''  too short  '') =
     (HTTPException 400 (lit ''Feedback too short.''), empty_db) \<and>
   10 \<le> length (py_strip (feedback (example_feedback ''This is more than ten characters''))) \<and>
   10 \<le> spec_non_whitespace_count
          (py_strip (feedback (example_feedback ''This is more than ten characters''))) \<and>
   fst (create_feedback 0 1 empty_db (example_feedback ''This is more than ten characters'')) \<noteq>
     HTTPException 400 (lit ''Feedback too short.'')"
proof -
  have short: "length (py_strip (feedback (example_feedback ''  too short  ''))) < 10"
    by (simp add: example_feedback_def strip_short) (simp add: lit_def)
  have cnt: "10 \<le> spec_non_whitespace_count
          (py_strip (feedback (example_feedback ''This is more than ten characters'')))"
    by (simp add: example_feedback_def spec_non_whitespace_count_def py_strip_def lit_def
        py_isspace_def)
  have long: "10 \<le> length (py_strip (feedback (example_feedback ''This is more than ten characters'')))"
    by (simp add: example_feedback_def py_strip_def lit_def py_isspace_def)
  show ?thesis
    using short cnt long
      create_feedback_length_check [of "example_feedback ''  too short  ''" 0 1 empty_db]
      create_feedback_length_check
        [of "example_feedback ''This is more than ten characters''" 0 1 empty_db]
    by blast
qed

text \<open>
  The claim counts non-whitespace characters. The text \<open>a        b\<close> (eight spaces inside)
  has two of them, yet its trimmed length is 10: the request is accepted and the record
  is inserted.
\<close>

theorem create_feedback_interior_whitespace:
  "spec_non_whitespace_count (py_strip (feedback (example_feedback ''a        b''))) < 10 \<and>
   create_feedback 0 1 empty_db (example_feedback ''a        b'') =
     (Returned \<lparr>name = lit ''Alice'', email = lit ''a@x.com'', feedback = lit ''a        b'',
                feedback_id = 1, time = stored_datetime (datetime_now_utc 0)\<rparr>,
      \<lparr>feedback_coll =
         [\<lparr>name = lit ''Alice'', email = lit ''a@x.com'', feedback = lit ''a        b'',
           feedback_id = 1, time = stored_datetime (datetime_now_utc 0)\<rparr>],
       bookings_coll = []\<rparr>)"
proof -
  have long: "10 \<le> length (py_strip (feedback (example_feedback ''a        b'')))"
    by (simp add: example_feedback_def strip_spaced) (simp add: lit_def)
  have fresh: "(1::objectid) \<notin> feedback_id ` set (feedback_coll empty_db)"
    by (simp add: empty_db_def)
  show ?thesis
    using create_feedback_inserted [OF long fresh, of 0]
    by (simp add: example_feedback_def cnt_spaced empty_db_def)
qed

section \<open>Facts about the routes\<close>

lemma protected_missing_header:
  "protected API_KEY None body db handler = (RequestValidationError, db)"
  by (simp add: protected_def)

lemma protected_wrong_key:
  assumes "Some k \<noteq> API_KEY"
  shows "protected API_KEY (Some k) body db handler =
           (HTTPException 401 (lit ''Invalid or missing API Key''), db)"
  using assms by (simp add: protected_def verify_api_key_def)

lemma protected_right_key:
  "protected (Some k) (Some k) (Some b) db handler = handler b"
  by (simp add: protected_def verify_api_key_def)

lemma protected_Returned:
  assumes "protected API_KEY x_api_key body db handler = (Returned r, db')"
  shows "\<exists>b. body = Some b \<and> handler b = (Returned r, db')"
  using assms
  by (auto simp: protected_def verify_api_key_def split: option.splits if_splits)

lemma wrong_api_key_is_401:
  assumes "Some k \<noteq> API_KEY"
  shows "route_post_feedback API_KEY (Some k) body now new_id db =
           (HTTPException 401 (lit ''Invalid or missing API Key''), db)"
    and "route_get_feedback API_KEY (Some k) ident db =
           (HTTPException 401 (lit ''Invalid or missing API Key''), db)"
    and "route_post_booking API_KEY (Some k) booking now new_id db =
           (HTTPException 401 (lit ''Invalid or missing API Key''), db)"
    and "route_get_booking API_KEY (Some k) ident db =
           (HTTPException 401 (lit ''Invalid or missing API Key''), db)"
  using assms
  by (simp_all add: route_post_feedback_def route_get_feedback_def route_post_booking_def
      route_get_booking_def protected_wrong_key)

lemma create_feedback_failed_db:
  assumes "status_code (fst (create_feedback now new_id db feedback_in)) \<noteq> 200"
    and "status_code (fst (create_feedback now new_id db feedback_in)) \<noteq> 500"
  shows "snd (create_feedback now new_id db feedback_in) = db"
  using assms
  by (auto simp: create_feedback_def Let_def split: sum.splits option.splits if_splits)

lemma FeedbackCreate_validate_ignores_time:
  "FeedbackCreate_validate (body(lit ''time'' \<mapsto> v)) = FeedbackCreate_validate body"
proof -
  have "lit ''name'' \<noteq> lit ''time''" "lit ''email'' \<noteq> lit ''time''"
    "lit ''feedback'' \<noteq> lit ''time''"
    by (simp_all add: lit_eq_iff)
  then show ?thesis
    by (simp add: FeedbackCreate_validate_def cong: option.case_cong json.case_cong)
qed

section \<open>The example requests evaluated\<close>

lemmas example_defs =
  example_booking_def stored_booking_def utc_at_def naive_at_def example_db_def example_now_def
  empty_db_def example_feedback_def

lemmas eval_defs =
  create_booking_def py_ge_def py_lt_def hour_def datetime_now_utc_def find_one_def
  overlap_query_def bson_date_def utc_micros_def stored_datetime_def datetime_of_bson_def
  booking_document_def insert_one_def Let_def

lemma example_overlap:
  "create_booking example_now 2 example_db
     (example_booking (utc_at 20000 10 30) (utc_at 20000 11 30)) =
   (JSONResponse 409 (lit ''Time slot unavailable. Overlaps with booking ID: '' @ str_oid 1),
    example_db)"
  by (simp add: eval_defs example_defs)

lemma example_adjacent:
  "create_booking example_now 2 example_db
     (example_booking (utc_at 20000 11 0) (utc_at 20000 12 0)) =
   (Returned
      \<lparr>booking_name = lit ''Bob'', booking_email = lit ''b@x.com'',
       start_time = naive_at 20000 11 0, end_time = naive_at 20000 12 0, topic = lit ''Review'',
       booking_id = 2\<rparr>,
    example_db\<lparr>bookings_coll := bookings_coll example_db @
      [\<lparr>booking_name = lit ''Bob'', booking_email = lit ''b@x.com'',
        start_time = naive_at 20000 11 0, end_time = naive_at 20000 12 0, topic = lit ''Review'',
        booking_id = 2\<rparr>]\<rparr>)"
  by (simp add: eval_defs example_defs)

lemma example_long_feedback:
  "create_feedback 5 1 empty_db (example_feedback ''This is more than ten characters'') =
   (Returned
      \<lparr>name = lit ''Alice'', email = lit ''a@x.com'',
       feedback = lit ''This is more than ten characters'', feedback_id = 1,
       time = \<lparr>wall = 0, utcoffset = None\<rparr>\<rparr>,
    empty_db\<lparr>feedback_coll :=
      [\<lparr>name = lit ''Alice'', email = lit ''a@x.com'',
        feedback = lit ''This is more than ten characters'', feedback_id = 1,
        time = \<lparr>wall = 0, utcoffset = None\<rparr>\<rparr>]\<rparr>)"
proof -
  have long: "10 \<le> length (py_strip (feedback (example_feedback ''This is more than ten characters'')))"
    by (simp add: example_feedback_def py_strip_def lit_def py_isspace_def)
  have fresh: "(1::objectid) \<notin> feedback_id ` set (feedback_coll empty_db)"
    by (simp add: empty_db_def)
  show ?thesis
    using create_feedback_inserted [OF long fresh, of 5]
    by (simp add: example_feedback_def empty_db_def stored_datetime_utc)
qed

lemma example_short_feedback:
  "create_feedback 5 1 example_db (example_feedback ''  too short  '') =
   (HTTPException 400 (lit ''Feedback too short.''), example_db)"
proof -
  have "length (py_strip (feedback (example_feedback ''  too short  ''))) < 10"
    by (simp add: example_feedback_def strip_short) (simp add: lit_def)
  then show ?thesis by (rule create_feedback_short)
qed

lemma ObjectId_zeros:
  "ObjectId (lit ''000000000000000000000000'') = Inr [0, 0, 0, 0, 0, 0, 0, 0, 0, 0, 0, 0]"
  by (simp add: ObjectId_def lit_def is_hex_def hex_val_def c_isspace_def)

lemma ObjectId_spaced:
  "ObjectId (lit ''00 00 00 00 00 00 00 00 '') = Inr [0, 0, 0, 0, 0, 0, 0, 0]"
  by (simp add: ObjectId_def lit_def is_hex_def hex_val_def c_isspace_def)

lemma invalid_not_an_id: "\<not> ObjectId_is_valid (lit ''not-an-id'')"
  by (simp add: ObjectId_is_valid_def ObjectId_def lit_def)

lemma example_invalid_identifier:
  "get_feedback example_db (lit ''not-an-id'') = HTTPException 400 (lit ''Invalid ID format'')"
  "get_booking example_db (lit ''not-an-id'') = JSONResponse 400 (lit ''Invalid ID format'')"
  by (simp_all add: get_feedback_def get_booking_def invalid_not_an_id)

lemma example_unknown_identifier:
  "get_feedback example_db (lit ''000000000000000000000000'') =
     HTTPException 404 (lit ''Not found'')"
  by (simp add: get_feedback_def ObjectId_is_valid_def ObjectId_zeros find_one_def
      example_db_def)

lemma example_body_validate:
  "FeedbackCreate_validate example_body =
     Some (example_feedback ''This is more than ten characters'')"
  by (simp add: FeedbackCreate_validate_def example_body_def example_feedback_def lit_eq_iff)

section \<open>Authentication\<close>

text \<open>
  Claim C2. \<open>verify_api_key\<close> declares the header as required, \<open>Header(...)\<close>, so a request
  without \<open>x-api-key\<close> never reaches its comparison: on each of the four protected routes
  the answer is the framework's validation error, status 422, not the 401 with detail
  "Invalid or missing API Key" that the function raises for a wrong key
  (\<open>wrong_api_key_is_401\<close>).
\<close>

theorem missing_api_key_header_is_422:
  "route_post_feedback API_KEY None body now new_id db = (RequestValidationError, db) \<and>
   route_get_feedback API_KEY None ident db = (RequestValidationError, db) \<and>
   route_post_booking API_KEY None booking now new_id db = (RequestValidationError, db) \<and>
   route_get_booking API_KEY None ident db = (RequestValidationError, db) \<and>
   status_code (fst (route_post_feedback API_KEY None body now new_id db)) = 422"
  by (simp add: route_post_feedback_def route_get_feedback_def route_post_booking_def
      route_get_booking_def protected_missing_header)

section \<open>Failed requests leave the database unchanged\<close>

text \<open>
  Claim C6. When \<open>create_feedback\<close> or \<open>create_booking\<close> answers with status 400 or 409,
  the database it returns is the database it was given: no record is inserted into
  either collection.
\<close>

theorem failed_creation_inserts_nothing:
  "(status_code (fst (create_feedback now new_id db feedback_in)) = 400 \<or>
    status_code (fst (create_feedback now new_id db feedback_in)) = 409 \<longrightarrow>
      snd (create_feedback now new_id db feedback_in) = db) \<and>
   (status_code (fst (create_booking now new_id db booking)) = 400 \<or>
    status_code (fst (create_booking now new_id db booking)) = 409 \<longrightarrow>
      snd (create_booking now new_id db booking) = db)"
  using create_feedback_failed_db [of now new_id db feedback_in]
    create_booking_failed_db [of now new_id db booking]
  by auto

theorem failed_creation_inserts_nothing_witness:
  "status_code (fst (create_feedback 5 1 example_db (example_feedback ''  too short  ''))) = 400 \<and>
   snd (create_feedback 5 1 example_db (example_feedback ''  too short  '')) = example_db \<and>
   status_code (fst (create_booking example_now 2 example_db
     (example_booking (utc_at 20000 10 30) (utc_at 20000 11 30)))) = 409 \<and>
   snd (create_booking example_now 2 example_db
     (example_booking (utc_at 20000 10 30) (utc_at 20000 11 30))) = example_db"
proof -
  have f: "status_code (fst (create_feedback 5 1 example_db
      (example_feedback ''  too short  ''))) = 400"
    by (simp add: example_short_feedback)
  have b: "status_code (fst (create_booking example_now 2 example_db
     (example_booking (utc_at 20000 10 30) (utc_at 20000 11 30)))) = 409"
    by (simp add: example_overlap)
  show ?thesis
    using f b
      failed_creation_inserts_nothing [of 5 1 example_db "example_feedback ''  too short  ''"]
      failed_creation_inserts_nothing [of example_now 2 example_db _
        "example_booking (utc_at 20000 10 30) (utc_at 20000 11 30)"]
    by blast
qed

section \<open>Fetching by identifier\<close>

lemma is_hex_not_space: "is_hex c \<Longrightarrow> \<not> c_isspace c"
  by (auto simp: is_hex_def c_isspace_def)

lemma bytes_fromhex_hex:
  "list_all is_hex s \<Longrightarrow> even (length s) \<Longrightarrow> bytes_fromhex s \<noteq> None"
  by (induction s rule: bytes_fromhex.induct) (auto simp: is_hex_not_space)

lemma ObjectId_is_valid_hex:
  assumes "length s = 24" and "list_all is_hex s"
  shows "ObjectId_is_valid s"
proof -
  have "bytes_fromhex s \<noteq> None"
    using assms by (intro bytes_fromhex_hex) simp_all
  then show ?thesis
    using assms(1) by (auto simp: ObjectId_is_valid_def ObjectId_def)
qed

lemma ObjectId_is_valid_length: "ObjectId_is_valid s \<Longrightarrow> length s = 24"
  by (auto simp: ObjectId_is_valid_def ObjectId_def split: if_splits)

text \<open>
  What the two \<open>GET\<close> handlers answer: an identifier that \<open>ObjectId.is_valid\<close> refuses gets
  status 400, whatever the database holds, \<open>get_feedback\<close> with the generic detail
  "Invalid ID format" and \<open>get_booking\<close> with the structured reason "Invalid ID format";
  an identifier that is accepted and that no document of the collection carries gets
  status 404 with the generic detail "Not found".
\<close>

lemma get_by_identifier_answers:
  "(\<not> ObjectId_is_valid ident \<longrightarrow>
      get_feedback db ident = HTTPException 400 (lit ''Invalid ID format'') \<and>
      get_booking db ident = JSONResponse 400 (lit ''Invalid ID format'')) \<and>
   (ObjectId ident = Inr oid \<and> (\<forall>d\<in>set (feedback_coll db). binary (feedback_id d) \<noteq> oid) \<longrightarrow>
      get_feedback db ident = HTTPException 404 (lit ''Not found'')) \<and>
   (ObjectId ident = Inr oid \<and> (\<forall>d\<in>set (bookings_coll db). binary (booking_id d) \<noteq> oid) \<longrightarrow>
      get_booking db ident = HTTPException 404 (lit ''Not found''))"
proof (intro conjI impI)
  assume "ObjectId ident = Inr oid \<and> (\<forall>d\<in>set (feedback_coll db). binary (feedback_id d) \<noteq> oid)"
  then have "ObjectId ident = Inr oid"
    and "find_one (\<lambda>d. binary (feedback_id d) = oid) (feedback_coll db) = None"
    by (auto simp: find_one_None_iff)
  then show "get_feedback db ident = HTTPException 404 (lit ''Not found'')"
    by (simp add: get_feedback_def ObjectId_is_valid_def)
next
  assume "ObjectId ident = Inr oid \<and> (\<forall>d\<in>set (bookings_coll db). binary (booking_id d) \<noteq> oid)"
  then have "ObjectId ident = Inr oid"
    and "find_one (\<lambda>d. binary (booking_id d) = oid) (bookings_coll db) = None"
    by (auto simp: find_one_None_iff)
  then show "get_booking db ident = HTTPException 404 (lit ''Not found'')"
    by (simp add: get_booking_def ObjectId_is_valid_def)
qed (simp_all add: get_feedback_def get_booking_def)

text \<open>
  Claim C7. The handlers test the format with \<open>ObjectId.is_valid\<close>, which accepts more
  than 24 hexadecimal digits: \<open>bytes.fromhex\<close> skips ASCII whitespace, so the 24
  characters \<open>00 00 00 00 00 00 00 00 \<close> (eight pairs of digits, each followed by a space)
  are accepted and read as 8 bytes. The identifier is not 24 hexadecimal digits, yet
  neither handler answers 400 "Invalid ID format": both go on to the lookup.
\<close>

theorem whitespace_identifier_is_not_refused:
  "length (lit ''00 00 00 00 00 00 00 00 '') = 24 \<and>
   \<not> list_all is_hex (lit ''00 00 00 00 00 00 00 00 '') \<and>
   ObjectId_is_valid (lit ''00 00 00 00 00 00 00 00 '') \<and>
   ObjectId (lit ''00 00 00 00 00 00 00 00 '') = Inr [0, 0, 0, 0, 0, 0, 0, 0] \<and>
   get_feedback db (lit ''00 00 00 00 00 00 00 00 '') \<noteq>
     HTTPException 400 (lit ''Invalid ID format'') \<and>
   get_booking db (lit ''00 00 00 00 00 00 00 00 '') \<noteq>
     JSONResponse 400 (lit ''Invalid ID format'') \<and>
   status_code (get_feedback db (lit ''00 00 00 00 00 00 00 00 '')) \<noteq> 400 \<and>
   status_code (get_booking db (lit ''00 00 00 00 00 00 00 00 '')) \<noteq> 400"
proof -
  have len: "length (lit ''00 00 00 00 00 00 00 00 '') = 24"
    by (simp add: lit_def)
  have hex: "\<not> list_all is_hex (lit ''00 00 00 00 00 00 00 00 '')"
    by (simp add: lit_def is_hex_def)
  have valid: "ObjectId_is_valid (lit ''00 00 00 00 00 00 00 00 '')"
    by (simp add: ObjectId_is_valid_def ObjectId_spaced)
  have f: "get_feedback db (lit ''00 00 00 00 00 00 00 00 '') \<noteq>
      HTTPException 400 (lit ''Invalid ID format'')"
    by (simp add: get_feedback_def valid ObjectId_spaced split: option.split)
  have b: "get_booking db (lit ''00 00 00 00 00 00 00 00 '') \<noteq>
      JSONResponse 400 (lit ''Invalid ID format'')"
    by (simp add: get_booking_def valid ObjectId_spaced split: option.split)
  have fs: "status_code (get_feedback db (lit ''00 00 00 00 00 00 00 00 '')) \<noteq> 400"
    by (simp add: get_feedback_def valid ObjectId_spaced split: option.split)
  have bs: "status_code (get_booking db (lit ''00 00 00 00 00 00 00 00 '')) \<noteq> 400"
    by (simp add: get_booking_def valid ObjectId_spaced split: option.split)
  show ?thesis
    using len hex valid f b fs bs by (simp add: ObjectId_spaced)
qed

section \<open>Round trip\<close>

lemma find_one_binary:
  assumes "key doc \<notin> key ` set coll"
  shows "find_one (\<lambda>d. binary (key d) = binary (key doc)) (coll @ [doc]) = Some doc"
  using find_one_inserted [OF assms] by (simp add: binary_eq_iff)

text \<open>
  Claim C8. When \<open>create_feedback\<close> or \<open>create_booking\<close> returns a record, fetching the
  returned identifier from the resulting database returns that same record, equal in
  every field.
\<close>

theorem created_record_round_trip:
  "(create_feedback now new_id db feedback_in = (Returned fr, db') \<longrightarrow>
      get_feedback db' (str_oid (feedback_id fr)) = Returned fr) \<and>
   (create_booking now new_id db booking = (Returned br, db'') \<longrightarrow>
      get_booking db'' (str_oid (booking_id br)) = Returned br)"
proof (intro conjI impI)
  assume "create_feedback now new_id db feedback_in = (Returned fr, db')"
  from create_feedback_Returned [OF this]
  have coll: "feedback_coll db' = feedback_coll db @ [fr]"
    and fresh: "feedback_id fr \<notin> feedback_id ` set (feedback_coll db)"
    by auto
  have "find_one (\<lambda>d. binary (feedback_id d) = binary (feedback_id fr)) (feedback_coll db') =
      Some fr"
    using find_one_binary [OF fresh] coll by simp
  then show "get_feedback db' (str_oid (feedback_id fr)) = Returned fr"
    by (simp add: get_feedback_def ObjectId_is_valid_str_oid ObjectId_str_oid)
next
  assume "create_booking now new_id db booking = (Returned br, db'')"
  from create_booking_Returned [OF this]
  have coll: "bookings_coll db'' = bookings_coll db @ [br]"
    and fresh: "booking_id br \<notin> booking_id ` set (bookings_coll db)"
    by auto
  have "find_one (\<lambda>d. binary (booking_id d) = binary (booking_id br)) (bookings_coll db'') =
      Some br"
    using find_one_binary [OF fresh] coll by simp
  then show "get_booking db'' (str_oid (booking_id br)) = Returned br"
    by (simp add: get_booking_def ObjectId_is_valid_str_oid ObjectId_str_oid)
qed

theorem created_record_round_trip_witness:
  "get_feedback
     (empty_db\<lparr>feedback_coll :=
        [\<lparr>name = lit ''Alice'', email = lit ''a@x.com'',
          feedback = lit ''This is more than ten characters'', feedback_id = 1,
          time = \<lparr>wall = 0, utcoffset = None\<rparr>\<rparr>]\<rparr>) (str_oid 1) =
   Returned \<lparr>name = lit ''Alice'', email = lit ''a@x.com'',
     feedback = lit ''This is more than ten characters'', feedback_id = 1,
     time = \<lparr>wall = 0, utcoffset = None\<rparr>\<rparr> \<and>
   get_booking
     (example_db\<lparr>bookings_coll := bookings_coll example_db @
        [\<lparr>booking_name = lit ''Bob'', booking_email = lit ''b@x.com'',
          start_time = naive_at 20000 11 0, end_time = naive_at 20000 12 0,
          topic = lit ''Review'', booking_id = 2\<rparr>]\<rparr>) (str_oid 2) =
   Returned \<lparr>booking_name = lit ''Bob'', booking_email = lit ''b@x.com'',
     start_time = naive_at 20000 11 0, end_time = naive_at 20000 12 0, topic = lit ''Review'',
     booking_id = 2\<rparr>"
  using example_long_feedback example_adjacent
    created_record_round_trip [of 5 1 empty_db
      "example_feedback ''This is more than ten characters''"
      "\<lparr>name = lit ''Alice'', email = lit ''a@x.com'',
        feedback = lit ''This is more than ten characters'', feedback_id = 1,
        time = \<lparr>wall = 0, utcoffset = None\<rparr>\<rparr>"]
    created_record_round_trip [of example_now 2 example_db _ _ _
      "example_booking (utc_at 20000 11 0) (utc_at 20000 12 0)"
      "\<lparr>booking_name = lit ''Bob'', booking_email = lit ''b@x.com'',
        start_time = naive_at 20000 11 0, end_time = naive_at 20000 12 0,
        topic = lit ''Review'', booking_id = 2\<rparr>"]
  by simp

section \<open>The time of a feedback record\<close>

lemma example_feedback_at:
  "route_post_feedback (Some (lit ''secret'')) (Some (lit ''secret'')) example_body 1234567 1
     empty_db =
   (Returned
      \<lparr>name = lit ''Alice'', email = lit ''a@x.com'',
       feedback = lit ''This is more than ten characters'', feedback_id = 1,
       time = \<lparr>wall = 1234000, utcoffset = None\<rparr>\<rparr>,
    empty_db\<lparr>feedback_coll :=
      [\<lparr>name = lit ''Alice'', email = lit ''a@x.com'',
        feedback = lit ''This is more than ten characters'', feedback_id = 1,
        time = \<lparr>wall = 1234000, utcoffset = None\<rparr>\<rparr>]\<rparr>)"
proof -
  have long: "10 \<le> length (py_strip (feedback (example_feedback ''This is more than ten characters'')))"
    by (simp add: example_feedback_def py_strip_def lit_def py_isspace_def)
  have fresh: "(1::objectid) \<notin> feedback_id ` set (feedback_coll empty_db)"
    by (simp add: empty_db_def)
  show ?thesis
    using create_feedback_inserted [OF long fresh, of 1234567]
    by (simp add: route_post_feedback_def example_body_validate protected_right_key
        example_feedback_def empty_db_def stored_datetime_utc)
qed

text \<open>
  Claim C9, as the code has it. A \<open>time\<close> entry in the body of \<open>POST /feedback\<close> changes
  nothing: the route answers as it does without the entry. The record the route returns,
  which is the record appended to the feedback collection, carries
  \<open>datetime.now(timezone.utc)\<close> as the database stores it: the UTC instant the handler
  read, cut to whole milliseconds, without a time zone. It is at most the instant read and
  less than one millisecond before it.
\<close>

theorem feedback_time_is_server_time:
  "route_post_feedback API_KEY x_api_key (body(lit ''time'' \<mapsto> v)) now new_id db =
     route_post_feedback API_KEY x_api_key body now new_id db \<and>
   (route_post_feedback API_KEY x_api_key body now new_id db = (Returned r, db') \<longrightarrow>
      time r = stored_datetime (datetime_now_utc now) \<and>
      utcoffset (time r) = None \<and> wall (time r) mod 1000 = 0 \<and>
      wall (time r) \<le> now \<and> now < wall (time r) + 1000 \<and>
      feedback_coll db' = feedback_coll db @ [r])"
proof (intro conjI impI)
  show "route_post_feedback API_KEY x_api_key (body(lit ''time'' \<mapsto> v)) now new_id db =
     route_post_feedback API_KEY x_api_key body now new_id db"
    by (simp add: route_post_feedback_def FeedbackCreate_validate_ignores_time)
next
  assume "route_post_feedback API_KEY x_api_key body now new_id db = (Returned r, db')"
  then have "\<exists>b. FeedbackCreate_validate body = Some b \<and>
      create_feedback now new_id db b = (Returned r, db')"
    unfolding route_post_feedback_def by (rule protected_Returned)
  then obtain feedback_in where "create_feedback now new_id db feedback_in = (Returned r, db')"
    by blast
  from create_feedback_Returned [OF this]
  have r: "time r = stored_datetime (datetime_now_utc now)"
    and coll: "feedback_coll db' = feedback_coll db @ [r]"
    by auto
  have w: "wall (time r) = now div 1000 * 1000"
    by (simp add: r stored_datetime_utc)
  show "time r = stored_datetime (datetime_now_utc now)" by (rule r)
  show "utcoffset (time r) = None" by (simp add: r stored_datetime_utc)
  show "wall (time r) mod 1000 = 0" by (simp add: w)
  show "wall (time r) \<le> now" unfolding w by presburger
  show "now < wall (time r) + 1000" unfolding w by presburger
  show "feedback_coll db' = feedback_coll db @ [r]" by (rule coll)
qed

theorem feedback_time_is_server_time_witness:
  "route_post_feedback (Some (lit ''secret'')) (Some (lit ''secret''))
     (example_body(lit ''time'' \<mapsto> JString (lit ''1999-01-01T00:00:00Z''))) 1234567 1 empty_db =
   (Returned
      \<lparr>name = lit ''Alice'', email = lit ''a@x.com'',
       feedback = lit ''This is more than ten characters'', feedback_id = 1,
       time = \<lparr>wall = 1234000, utcoffset = None\<rparr>\<rparr>,
    empty_db\<lparr>feedback_coll :=
      [\<lparr>name = lit ''Alice'', email = lit ''a@x.com'',
        feedback = lit ''This is more than ten characters'', feedback_id = 1,
        time = \<lparr>wall = 1234000, utcoffset = None\<rparr>\<rparr>]\<rparr>) \<and>
   \<lparr>wall = 1234000, utcoffset = None\<rparr> = stored_datetime (datetime_now_utc 1234567)"
  using example_feedback_at
    feedback_time_is_server_time [of "Some (lit ''secret'')" "Some (lit ''secret'')"
      example_body "JString (lit ''1999-01-01T00:00:00Z'')" 1234567 1 empty_db
      "\<lparr>name = lit ''Alice'', email = lit ''a@x.com'',
        feedback = lit ''This is more than ten characters'', feedback_id = 1,
        time = \<lparr>wall = 1234000, utcoffset = None\<rparr>\<rparr>"
      "empty_db\<lparr>feedback_coll :=
        [\<lparr>name = lit ''Alice'', email = lit ''a@x.com'',
          feedback = lit ''This is more than ten characters'', feedback_id = 1,
          time = \<lparr>wall = 1234000, utcoffset = None\<rparr>\<rparr>]\<rparr>"]
  by simp

text \<open>
  The claim says the stored time equals the instant the server read. With the clock at
  1.234567 seconds the record carries 1.234 seconds: the microseconds below a millisecond
  are gone, and the value is naive where the instant read was aware.
\<close>

theorem feedback_time_drops_microseconds:
  "route_post_feedback (Some (lit ''secret'')) (Some (lit ''secret'')) example_body 1234567 1
     empty_db =
   (Returned
      \<lparr>name = lit ''Alice'', email = lit ''a@x.com'',
       feedback = lit ''This is more than ten characters'', feedback_id = 1,
       time = \<lparr>wall = 1234000, utcoffset = None\<rparr>\<rparr>,
    empty_db\<lparr>feedback_coll :=
      [\<lparr>name = lit ''Alice'', email = lit ''a@x.com'',
        feedback = lit ''This is more than ten characters'', feedback_id = 1,
        time = \<lparr>wall = 1234000, utcoffset = None\<rparr>\<rparr>]\<rparr>) \<and>
   \<lparr>wall = 1234000, utcoffset = None\<rparr> \<noteq> datetime_now_utc 1234567 \<and>
   utc_micros \<lparr>wall = 1234000, utcoffset = None\<rparr> \<noteq> utc_micros (datetime_now_utc 1234567)"
  by (simp add: example_feedback_at datetime_now_utc_def utc_micros_def)

section \<open>Facts about the checks of a booking\<close>

lemma office_reason_distinct:
  "lit ''Start time must be before end time.'' \<noteq>
     lit ''Cannot create a booking outside office hours.''"
  "lit ''Cannot create a booking in the past.'' \<noteq>
     lit ''Cannot create a booking outside office hours.''"
  by (simp_all add: lit_eq_iff)

lemma create_booking_office_only:
  assumes "fst (create_booking now new_id db booking) =
             JSONResponse 400 (lit ''Cannot create a booking outside office hours.'')"
  shows "hour (start_time booking) < 9 \<or> 18 < hour (end_time booking)"
  using assms office_reason_distinct
  by (auto simp: create_booking_def Let_def split: sum.splits option.splits if_splits)







lemma create_booking_naive:
  assumes "utcoffset (start_time booking) = None"
    and "py_ge (start_time booking) (end_time booking) \<noteq> Inr True"
  shows "create_booking now new_id db booking = (Unhandled TypeError, db)"
  using assms
  by (auto simp: create_booking_def py_ge_def py_lt_def datetime_now_utc_def
      split: option.splits)

lemma hour_shift_days: "hour (d\<lparr>wall := wall d + k * 86400000000\<rparr>) = hour d"
proof -
  have "(wall d + k * 86400000000) div 3600000000 = wall d div 3600000000 + k * 24"
    by (simp add: div_add1_eq)
  then show ?thesis
    by (simp add: hour_def)
qed


lemma example_1845:
  "status_code (fst (create_booking example_now 2 example_db
     (example_booking (utc_at 20000 12 0) (utc_at 20000 18 45)))) = 200"
  by (simp add: eval_defs example_defs)

lemma example_three_days:
  "status_code (fst (create_booking example_now 2 example_db
     (example_booking (utc_at 20001 9 0) (utc_at 20004 17 0)))) = 200"
  by (simp add: eval_defs example_defs)

lemma example_checks:
  "py_ge (utc_at 20000 11 0) (utc_at 20000 10 0) = Inr True"
  "py_ge (utc_at 20000 10 30) (utc_at 20000 11 30) = Inr False"
  "py_ge (utc_at 20000 11 0) (utc_at 20000 12 0) = Inr False"
  "py_ge (utc_at 20000 8 0) (utc_at 20000 10 0) = Inr False"
  "py_ge (utc_at 20000 12 0) (utc_at 20000 18 45) = Inr False"
  "py_lt (utc_at 20000 10 30) (datetime_now_utc (wall (utc_at 20001 0 0))) = Inr True"
  "py_lt (utc_at 20000 10 30) (datetime_now_utc example_now) = Inr False"
  "py_lt (utc_at 20000 11 0) (datetime_now_utc example_now) = Inr False"
  "py_lt (utc_at 20000 8 0) (datetime_now_utc example_now) = Inr False"
  "py_lt (utc_at 20000 12 0) (datetime_now_utc example_now) = Inr False"
  by (simp_all add: py_ge_def py_lt_def datetime_now_utc_def utc_at_def example_now_def)

lemma example_hours:
  "hour (utc_at 20000 8 0) = 8" "hour (utc_at 20000 10 0) = 10" "hour (utc_at 20000 10 30) = 10"
  "hour (utc_at 20000 11 0) = 11" "hour (utc_at 20000 11 30) = 11" "hour (utc_at 20000 12 0) = 12"
  "hour (utc_at 20000 18 45) = 18" "hour (utc_at 20001 9 0) = 9" "hour (utc_at 20004 17 0) = 17"
  by (simp_all add: hour_def utc_at_def)

lemma example_overlap_query:
  "overlap_query (example_booking (utc_at 20000 10 30) (utc_at 20000 11 30))
     (stored_booking 1 (naive_at 20000 10 0) (naive_at 20000 11 0))"
  "bson_date (start_time (example_booking (utc_at 20000 11 0) (utc_at 20000 12 0))) =
     bson_date (end_time (stored_booking 1 (naive_at 20000 10 0) (naive_at 20000 11 0)))"
  by (simp_all add: overlap_query_def bson_date_def utc_micros_def example_defs)


lemma example_find_one:
  "find_one (overlap_query (example_booking (utc_at 20000 10 30) (utc_at 20000 11 30)))
     (bookings_coll example_db) =
   Some (stored_booking 1 (naive_at 20000 10 0) (naive_at 20000 11 0))"
  using example_overlap_query(1) by (simp add: find_one_def example_db_def)


lemma example_naive:
  "create_booking example_now 2 example_db
     (example_booking (naive_at 20000 10 0) (naive_at 20000 11 0)) =
   (Unhandled TypeError, example_db)"
  by (rule create_booking_naive) (simp_all add: example_booking_def naive_at_def py_ge_def)

section \<open>The overlap check\<close>




section \<open>The office-hours check\<close>

text \<open>
  Claim C4. For a request that reaches the office-hours check, \<open>create_booking\<close> answers
  400 with reason "Cannot create a booking outside office hours." exactly when the hour
  of the start is below 9 or the hour of the end is above 18; no request gets this answer
  otherwise. The hour is the same for all readings within one hour of the clock, so the
  minutes play no part: an end at 18:45 passes.
\<close>

theorem office_hours_check:
  "(py_ge (start_time booking) (end_time booking) = Inr False \<and>
    py_lt (start_time booking) (datetime_now_utc now) = Inr False \<longrightarrow>
      (create_booking now new_id db booking =
         (JSONResponse 400 (lit ''Cannot create a booking outside office hours.''), db)) =
      (hour (start_time booking) < 9 \<or> 18 < hour (end_time booking))) \<and>
   (fst (create_booking now new_id db booking) =
      JSONResponse 400 (lit ''Cannot create a booking outside office hours.'') \<longrightarrow>
      hour (start_time booking) < 9 \<or> 18 < hour (end_time booking)) \<and>
   (wall d div 3600000000 = wall d' div 3600000000 \<longrightarrow> hour d = hour d')"
proof (intro conjI impI)
  assume "py_ge (start_time booking) (end_time booking) = Inr False \<and>
    py_lt (start_time booking) (datetime_now_utc now) = Inr False"
  then have c1: "py_ge (start_time booking) (end_time booking) = Inr False"
    and c2: "py_lt (start_time booking) (datetime_now_utc now) = Inr False"
    by auto
  show "(create_booking now new_id db booking =
         (JSONResponse 400 (lit ''Cannot create a booking outside office hours.''), db)) =
      (hour (start_time booking) < 9 \<or> 18 < hour (end_time booking))"
  proof
    assume "create_booking now new_id db booking =
         (JSONResponse 400 (lit ''Cannot create a booking outside office hours.''), db)"
    then have "fst (create_booking now new_id db booking) =
         JSONResponse 400 (lit ''Cannot create a booking outside office hours.'')"
      by simp
    then show "hour (start_time booking) < 9 \<or> 18 < hour (end_time booking)"
      by (rule create_booking_office_only)
  next
    assume "hour (start_time booking) < 9 \<or> 18 < hour (end_time booking)"
    with c1 c2 show "create_booking now new_id db booking =
         (JSONResponse 400 (lit ''Cannot create a booking outside office hours.''), db)"
      by (rule create_booking_office)
  qed
next
  assume "fst (create_booking now new_id db booking) =
      JSONResponse 400 (lit ''Cannot create a booking outside office hours.'')"
  then show "hour (start_time booking) < 9 \<or> 18 < hour (end_time booking)"
    by (rule create_booking_office_only)
next
  assume "wall d div 3600000000 = wall d' div 3600000000"
  then show "hour d = hour d'" by (simp add: hour_def)
qed

theorem office_hours_check_witness:
  "hour (utc_at 20000 18 45) = 18 \<and>
   create_booking example_now 2 example_db
     (example_booking (utc_at 20000 12 0) (utc_at 20000 18 45)) \<noteq>
   (JSONResponse 400 (lit ''Cannot create a booking outside office hours.''), example_db) \<and>
   create_booking example_now 2 example_db
     (example_booking (utc_at 20000 8 0) (utc_at 20000 10 0)) =
   (JSONResponse 400 (lit ''Cannot create a booking outside office hours.''), example_db)"
proof -
  let ?late = "example_booking (utc_at 20000 12 0) (utc_at 20000 18 45)"
  let ?early = "example_booking (utc_at 20000 8 0) (utc_at 20000 10 0)"
  have pass1: "py_ge (start_time ?late) (end_time ?late) = Inr False \<and>
      py_lt (start_time ?late) (datetime_now_utc example_now) = Inr False"
    by (simp add: example_booking_def example_checks)
  have h1: "\<not> (hour (start_time ?late) < 9 \<or> 18 < hour (end_time ?late))"
    by (simp add: example_booking_def example_hours)
  have r1: "create_booking example_now 2 example_db ?late \<noteq>
      (JSONResponse 400 (lit ''Cannot create a booking outside office hours.''), example_db)"
    using office_hours_check [of ?late example_now 2 example_db] pass1 h1 by blast
  have pass2: "py_ge (start_time ?early) (end_time ?early) = Inr False \<and>
      py_lt (start_time ?early) (datetime_now_utc example_now) = Inr False"
    by (simp add: example_booking_def example_checks)
  have h2: "hour (start_time ?early) < 9 \<or> 18 < hour (end_time ?early)"
    by (simp add: example_booking_def example_hours)
  have r2: "create_booking example_now 2 example_db ?early =
      (JSONResponse 400 (lit ''Cannot create a booking outside office hours.''), example_db)"
    using office_hours_check [of ?early example_now 2 example_db] pass2 h2 by blast
  show ?thesis
    using r1 r2 by (simp add: example_hours)
qed

section \<open>The order of the checks\<close>

text \<open>
  When Python can compare the datetimes of the request, the checks of \<open>create_booking\<close>
  run in the order of the source, each answering with a structured body and leaving the
  database unchanged: a start that is not before the end gives 400; otherwise a start
  before the current UTC instant gives 400; otherwise an hour outside office hours gives
  400; otherwise a stored booking that matches the overlap query gives 409 naming it.
\<close>

lemma create_booking_check_order:
  "(py_ge (start_time booking) (end_time booking) = Inr True \<longrightarrow>
      create_booking now new_id db booking =
        (JSONResponse 400 (lit ''Start time must be before end time.''), db)) \<and>
   (py_ge (start_time booking) (end_time booking) = Inr False \<and>
    py_lt (start_time booking) (datetime_now_utc now) = Inr True \<longrightarrow>
      create_booking now new_id db booking =
        (JSONResponse 400 (lit ''Cannot create a booking in the past.''), db)) \<and>
   (py_ge (start_time booking) (end_time booking) = Inr False \<and>
    py_lt (start_time booking) (datetime_now_utc now) = Inr False \<and>
    (hour (start_time booking) < 9 \<or> 18 < hour (end_time booking)) \<longrightarrow>
      create_booking now new_id db booking =
        (JSONResponse 400 (lit ''Cannot create a booking outside office hours.''), db)) \<and>
   (py_ge (start_time booking) (end_time booking) = Inr False \<and>
    py_lt (start_time booking) (datetime_now_utc now) = Inr False \<and>
    9 \<le> hour (start_time booking) \<and> hour (end_time booking) \<le> 18 \<and>
    find_one (overlap_query booking) (bookings_coll db) = Some existing_booking \<longrightarrow>
      create_booking now new_id db booking =
        (JSONResponse 409
           (lit ''Time slot unavailable. Overlaps with booking ID: '' @
            str_oid (booking_id existing_booking)), db))"
proof (intro conjI impI)
  assume "py_ge (start_time booking) (end_time booking) = Inr True"
  then show "create_booking now new_id db booking =
        (JSONResponse 400 (lit ''Start time must be before end time.''), db)"
    by (rule create_booking_order)
next
  assume "py_ge (start_time booking) (end_time booking) = Inr False \<and>
    py_lt (start_time booking) (datetime_now_utc now) = Inr True"
  then show "create_booking now new_id db booking =
        (JSONResponse 400 (lit ''Cannot create a booking in the past.''), db)"
    by (intro create_booking_past) auto
next
  assume "py_ge (start_time booking) (end_time booking) = Inr False \<and>
    py_lt (start_time booking) (datetime_now_utc now) = Inr False \<and>
    (hour (start_time booking) < 9 \<or> 18 < hour (end_time booking))"
  then show "create_booking now new_id db booking =
        (JSONResponse 400 (lit ''Cannot create a booking outside office hours.''), db)"
    by (intro create_booking_office) auto
next
  assume "py_ge (start_time booking) (end_time booking) = Inr False \<and>
    py_lt (start_time booking) (datetime_now_utc now) = Inr False \<and>
    9 \<le> hour (start_time booking) \<and> hour (end_time booking) \<le> 18 \<and>
    find_one (overlap_query booking) (bookings_coll db) = Some existing_booking"
  then show "create_booking now new_id db booking =
        (JSONResponse 409
           (lit ''Time slot unavailable. Overlaps with booking ID: '' @
            str_oid (booking_id existing_booking)), db)"
    by (intro create_booking_overlap) auto
qed

text \<open>
  Claim C5. \<open>BookingBase\<close> declares \<open>start_time: datetime\<close> and \<open>end_time: datetime\<close>, so
  a body with \<open>"start_time": "2024-10-04T10:00:00"\<close> and \<open>"end_time": "2024-10-04T11:00:00"\<close>,
  without an offset, is a valid request with naive datetimes. The first check compares
  the two naive values and passes; the second compares the naive start with the aware
  \<open>datetime.now(timezone.utc)\<close>, which raises \<open>TypeError\<close>. No handler catches it: the
  request is answered with status 500, by none of the four checks of the claim, and is
  not accepted either.
\<close>

theorem naive_booking_raises_TypeError:
  "py_ge (start_time (example_booking (naive_at 20000 10 0) (naive_at 20000 11 0)))
     (end_time (example_booking (naive_at 20000 10 0) (naive_at 20000 11 0))) = Inr False \<and>
   py_lt (start_time (example_booking (naive_at 20000 10 0) (naive_at 20000 11 0)))
     (datetime_now_utc example_now) = Inl TypeError \<and>
   create_booking example_now 2 example_db
     (example_booking (naive_at 20000 10 0) (naive_at 20000 11 0)) =
   (Unhandled TypeError, example_db) \<and>
   status_code (fst (create_booking example_now 2 example_db
     (example_booking (naive_at 20000 10 0) (naive_at 20000 11 0)))) = 500"
  by (simp add: example_naive)
    (simp add: example_booking_def naive_at_def py_ge_def py_lt_def datetime_now_utc_def)

section \<open>Office hours and dates\<close>

text \<open>
  Claim C10. A booking whose start hour is at least 9 and whose end hour is at most 18 is
  never answered with the office-hours reason, whatever its dates, and moving a datetime
  by whole days does not change its hour: a booking from 09:00 to 17:00 three days later
  passes the check.
\<close>

theorem office_hours_ignore_dates:
  "(9 \<le> hour (start_time booking) \<and> hour (end_time booking) \<le> 18 \<longrightarrow>
      fst (create_booking now new_id db booking) \<noteq>
        JSONResponse 400 (lit ''Cannot create a booking outside office hours.'')) \<and>
   hour (d\<lparr>wall := wall d + k * 86400000000\<rparr>) = hour d"
proof (intro conjI impI)
  assume ok: "9 \<le> hour (start_time booking) \<and> hour (end_time booking) \<le> 18"
  show "fst (create_booking now new_id db booking) \<noteq>
        JSONResponse 400 (lit ''Cannot create a booking outside office hours.'')"
  proof
    assume "fst (create_booking now new_id db booking) =
        JSONResponse 400 (lit ''Cannot create a booking outside office hours.'')"
    from create_booking_office_only [OF this] ok show False by auto
  qed
next
  show "hour (d\<lparr>wall := wall d + k * 86400000000\<rparr>) = hour d"
    by (rule hour_shift_days)
qed

theorem office_hours_ignore_dates_witness:
  "9 \<le> hour (utc_at 20001 9 0) \<and> hour (utc_at 20004 17 0) \<le> 18 \<and>
   fst (create_booking example_now 2 example_db
     (example_booking (utc_at 20001 9 0) (utc_at 20004 17 0))) \<noteq>
   JSONResponse 400 (lit ''Cannot create a booking outside office hours.'') \<and>
   status_code (fst (create_booking example_now 2 example_db
     (example_booking (utc_at 20001 9 0) (utc_at 20004 17 0)))) = 200"
proof -
  let ?long = "example_booking (utc_at 20001 9 0) (utc_at 20004 17 0)"
  have h: "9 \<le> hour (start_time ?long) \<and> hour (end_time ?long) \<le> 18"
    by (simp add: example_booking_def example_hours)
  have r: "fst (create_booking example_now 2 example_db ?long) \<noteq>
      JSONResponse 400 (lit ''Cannot create a booking outside office hours.'')"
    using office_hours_ignore_dates [of ?long example_now 2 example_db] h by blast
  show ?thesis
    using r example_three_days by (simp add: example_hours)
qed

end
